theory Spec2Isabelle
  imports Main
begin

section \<open>Python string operations used by the check command\<close>

text \<open>
  A Python \<open>str\<close> is a sequence of code points. It is modelled as a \<open>string\<close>, whose
  characters are the code points below 256; \<open>length\<close> then counts code points, as
  Python's \<open>len\<close> does.
\<close>

abbreviation nl :: char where
  "nl \<equiv> CHR ''\<newline>''"

text \<open>\<open>s.startswith(p)\<close>\<close>

fun startswith :: "string \<Rightarrow> string \<Rightarrow> bool" where
  "startswith s [] = True"
| "startswith [] (p # ps) = False"
| "startswith (c # s) (p # ps) = (c = p \<and> startswith s ps)"

text \<open>\<open>sub in s\<close>: \<open>sub\<close> occurs in \<open>s\<close> at some position.\<close>

fun str_contains :: "string \<Rightarrow> string \<Rightarrow> bool" where
  "str_contains [] sub = (sub = [])"
| "str_contains (c # s) sub = (startswith (c # s) sub \<or> str_contains s sub)"

text \<open>
  \<open>s.split(sep)\<close> for a separator of one character: the pieces between the
  occurrences of \<open>sep\<close>; a string without \<open>sep\<close> (the empty string too) is one piece.
\<close>

fun str_split :: "string \<Rightarrow> char \<Rightarrow> string list" where
  "str_split [] sep = [[]]"
| "str_split (c # s) sep =
     (if c = sep then [] # str_split s sep
      else (case str_split s sep of
              [] \<Rightarrow> [[c]]
            | piece # pieces \<Rightarrow> (c # piece) # pieces))"

text \<open>\<open>sep.join(pieces)\<close>\<close>

fun str_join :: "string \<Rightarrow> string list \<Rightarrow> string" where
  "str_join sep [] = []"
| "str_join sep [piece] = piece"
| "str_join sep (piece # other # pieces) = piece @ sep @ str_join sep (other # pieces)"

text \<open>
  \<open>s.partition(sep)\<close> for a separator of one character: the text before the first
  \<open>sep\<close>, the separator, the text after it; \<open>(s, '''', '''')\<close> when \<open>sep\<close> does not occur.
\<close>

definition str_partition :: "string \<Rightarrow> char \<Rightarrow> string \<times> string \<times> string" where
  "str_partition s sep =
     (let rest = dropWhile (\<lambda>c. c \<noteq> sep) s
      in if rest = [] then (s, [], [])
         else (takeWhile (\<lambda>c. c \<noteq> sep) s, [sep], tl rest))"

text \<open>
  \<open>c.isspace()\<close> on the code points below 256: U+0009 to U+000D, U+001C to U+0020,
  U+0085 and U+00A0.
\<close>

definition isspace :: "char \<Rightarrow> bool" where
  "isspace c =
     (let n = (of_char c :: nat)
      in (9 \<le> n \<and> n \<le> 13) \<or> (28 \<le> n \<and> n \<le> 32) \<or> n = 133 \<or> n = 160)"

text \<open>\<open>s.strip()\<close>: leading and trailing whitespace removed.\<close>

definition str_strip :: "string \<Rightarrow> string" where
  "str_strip s = rev (dropWhile isspace (rev (dropWhile isspace s)))"


section \<open>Errors\<close>

text \<open>
  The exceptions the check command and the rule base class raise, each with its
  message, and \<open>OtherError\<close> for an exception of a collaborator (\<open>open\<close>, the git
  command, \<open>re\<close>, the plugin factory) that propagates unchanged.
\<close>

datatype error =
    InvalidCommandArgumentError string
  | NoCommitsFoundError string
  | InvalidCommitMessageError string
  | NotImplementedError string
  | OtherError string


section \<open>The rule base class: \<open>commitizen/cz/base.py\<close>\<close>

text \<open>
  \<open>re_match pattern msg\<close> stands for \<open>bool(re.match(pattern, msg))\<close> of Python's
  regular expression library, which raises on a pattern it cannot compile.
\<close>

type_synonym regex_engine = "string \<Rightarrow> string \<Rightarrow> error + bool"

text \<open>\<open>BaseCommitizen.validate_commit_message\<close>\<close>

definition validate_commit_message ::
  "regex_engine \<Rightarrow> string \<Rightarrow> string option \<Rightarrow> bool \<Rightarrow> string list \<Rightarrow> int
     \<Rightarrow> error + (bool \<times> string list)" where
  "validate_commit_message re_match commit_msg pattern allow_abort allowed_prefixes max_msg_length =
     (if commit_msg = [] then Inr (allow_abort, [])
      else case pattern of
        None \<Rightarrow> Inr (True, [])
      | Some pat \<Rightarrow>
          if list_ex (startswith commit_msg) allowed_prefixes then Inr (True, [])
          else if max_msg_length \<noteq> 0
                  \<and> int (length (str_strip (fst (str_partition commit_msg nl)))) > max_msg_length
            then Inr (False, [])
          else (case re_match pat commit_msg of
                  Inl e \<Rightarrow> Inl e
                | Inr matched \<Rightarrow> Inr (matched, [])))"


text \<open>
  A commit as the check command uses it: \<open>git.GitCommit(rev, title, body)\<close>. The class
  itself lives in \<open>commitizen/git.py\<close>; its \<open>message\<close> property is a collaborator
  below (\<open>git_message\<close>).
\<close>

record GitCommit =
  rev_id :: string
  title :: string
  body :: string

abbreviation dquote :: char where
  "dquote \<equiv> CHR 0x22"

abbreviation squote :: char where
  "squote \<equiv> CHR 0x27"

text \<open>
  \<open>BaseCommitizen.format_exception_message\<close>. The last line interpolates
  \<open>self.schema_pattern\<close>, the bound method and not its result: \<open>schema_pattern_str\<close> is
  the text Python prints for it.
\<close>

definition format_exception_message ::
  "(GitCommit \<Rightarrow> string) \<Rightarrow> string \<Rightarrow> (GitCommit \<times> string list) list \<Rightarrow> string" where
  "format_exception_message message schema_pattern_str ill_formated_commits =
     (let displayed_msgs_content =
            str_join [nl]
              (map (\<lambda>(commit, _).
                      ''commit '' @ [dquote] @ rev_id commit @ [dquote] @ '': ''
                        @ [dquote] @ message commit @ [dquote])
                 ill_formated_commits)
      in ''commit validation: failed!\<newline>''
         @ ''please enter a commit message in the commitizen format.\<newline>''
         @ displayed_msgs_content @ [nl]
         @ ''pattern: '' @ schema_pattern_str)"

text \<open>
  A rule plugin as the check command sees it: the three methods it calls on \<open>self.cz\<close>.
  \<open>plugin_schema_pattern\<close> is the outcome of calling \<open>schema_pattern()\<close>.
\<close>

record RulePlugin =
  plugin_schema_pattern :: "error + string option"
  plugin_validate_commit_message ::
    "string \<Rightarrow> string option \<Rightarrow> bool \<Rightarrow> string list \<Rightarrow> int \<Rightarrow> error + (bool \<times> string list)"
  plugin_format_exception_message :: "(GitCommit \<times> string list) list \<Rightarrow> string"

text \<open>
  The methods of \<open>BaseCommitizen\<close> itself: \<open>schema_pattern\<close> raises
  \<open>NotImplementedError\<close>, and a rule overrides it.
\<close>

definition BaseCommitizen :: "regex_engine \<Rightarrow> (GitCommit \<Rightarrow> string) \<Rightarrow> string \<Rightarrow> RulePlugin" where
  "BaseCommitizen re_match message schema_pattern_str =
     \<lparr> plugin_schema_pattern = Inl (NotImplementedError ''Not Implemented yet''),
       plugin_validate_commit_message = validate_commit_message re_match,
       plugin_format_exception_message = format_exception_message message schema_pattern_str \<rparr>"


section \<open>A rule with its own validation and report: \<open>tests/conftest.py\<close>\<close>

text \<open>\<open>str(n)\<close> of an integer, as an f-string interpolates it.\<close>

fun str_nat :: "nat \<Rightarrow> string" where
  "str_nat n =
     (if n < 10 then [char_of (48 + n)]
      else str_nat (n div 10) @ [char_of (48 + n mod 10)])"

definition str_int :: "int \<Rightarrow> string" where
  "str_int i = (if i < 0 then ''-'' @ str_nat (nat (- i)) else str_nat (nat i))"

text \<open>\<open>ValidationCz.schema_pattern\<close>\<close>

definition ValidationCz_schema_pattern :: string where
  "ValidationCz_schema_pattern =
     ''^(?P<issue_nb>[A-Z]{3}-'' @ [CHR 0x5C] @ ''d+): (?P<commit>.*)$''"

text \<open>\<open>ValidationCz.validate_commit_message\<close>: the checks of the base class, with a reason
  for each failure.\<close>

definition ValidationCz_validate_commit_message ::
  "regex_engine \<Rightarrow> string \<Rightarrow> string option \<Rightarrow> bool \<Rightarrow> string list \<Rightarrow> int
     \<Rightarrow> error + (bool \<times> string list)" where
  "ValidationCz_validate_commit_message re_match commit_msg pattern allow_abort allowed_prefixes
       max_msg_length =
     (if commit_msg = [] then
        Inr (allow_abort, if allow_abort then [] else [''commit message is empty''])
      else case pattern of
        None \<Rightarrow> Inr (True, [])
      | Some pat \<Rightarrow>
          if list_ex (startswith commit_msg) allowed_prefixes then Inr (True, [])
          else if max_msg_length \<noteq> 0
                  \<and> int (length (str_strip (fst (str_partition commit_msg nl)))) > max_msg_length
            then Inr (False,
                      [''commit message is too long. Max length is '' @ str_int max_msg_length])
          else (case re_match pat commit_msg of
                  Inl e \<Rightarrow> Inl e
                | Inr pattern_match \<Rightarrow>
                    if \<not> pattern_match then
                      Inr (False, [''commit message does not match pattern '' @ pat])
                    else Inr (True, [])))"

text \<open>
  \<open>ValidationCz.format_exception_message\<close>. In the source the three adjacent string
  literals of an entry are one string, and \<open>join\<close> is called on that string: the line
  with the commit and the \<open>errors:\<close> heading is the separator between the reasons.
\<close>

definition ValidationCz_format_exception_message ::
  "(GitCommit \<Rightarrow> string) \<Rightarrow> string \<Rightarrow> (GitCommit \<times> string list) list \<Rightarrow> string" where
  "ValidationCz_format_exception_message message schema_pattern_str ill_formated_commits =
     (let displayed_msgs_content =
            str_join [nl]
              (map (\<lambda>(commit, errors).
                      str_join
                        (''commit '' @ [dquote] @ rev_id commit @ [dquote] @ '': ''
                           @ [dquote] @ message commit @ [dquote] @ [nl]
                           @ ''errors:'' @ [nl]
                           @ [nl])
                        (map (\<lambda>error. ''- '' @ error) errors))
                 ill_formated_commits)
      in ''commit validation: failed!\<newline>''
         @ ''please enter a commit message in the commitizen format.\<newline>''
         @ displayed_msgs_content @ [nl]
         @ ''pattern: '' @ schema_pattern_str)"

definition ValidationCz :: "regex_engine \<Rightarrow> (GitCommit \<Rightarrow> string) \<Rightarrow> string \<Rightarrow> RulePlugin" where
  "ValidationCz re_match message schema_pattern_str =
     \<lparr> plugin_schema_pattern = Inr (Some ValidationCz_schema_pattern),
       plugin_validate_commit_message = ValidationCz_validate_commit_message re_match,
       plugin_format_exception_message =
         ValidationCz_format_exception_message message schema_pattern_str \<rparr>"


section \<open>The check command: \<open>commitizen/commands/check.py\<close>\<close>

text \<open>The keys of \<open>config.settings\<close> the command reads.\<close>

record BaseConfig =
  settings_allow_abort :: bool
  settings_allowed_prefixes :: "string list"
  settings_encoding :: string

text \<open>
  The \<open>arguments\<close> dictionary, one field for each key the command looks up; \<open>None\<close> is
  what \<open>arguments.get\<close> finds for a key that is absent (for \<open>arg_allow_abort\<close> and
  \<open>arg_message_length_limit\<close>, the case in which the default is taken).
  \<open>arg_allow_abort\<close> holds the truth value of the entry.
\<close>

record arguments =
  arg_commit_msg_file :: "string option"
  arg_message :: "string option"
  arg_rev_range :: "string option"
  arg_allow_abort :: "bool option"
  arg_message_length_limit :: "int option"
  arg_allowed_prefixes :: "string list option"

text \<open>
  What the command reaches outside its own file: standard input, the file system, the
  git log, the \<open>message\<close> property of a commit, and the plugin factory.
\<close>

record env =
  stdin_isatty :: bool
  stdin_read :: string
  open_read :: "string \<Rightarrow> string \<Rightarrow> error + string"
  git_get_commits :: "string option \<Rightarrow> error + GitCommit list"
  git_message :: "GitCommit \<Rightarrow> string"
  commiter_factory :: "BaseConfig \<Rightarrow> error + RulePlugin"

text \<open>The attributes of a \<open>Check\<close> object.\<close>

record Check =
  commit_msg_file :: "string option"
  commit_msg :: "string option"
  rev_range :: "string option"
  allow_abort :: bool
  max_msg_length :: int
  allowed_prefixes :: "string list"
  config :: BaseConfig
  encoding :: string
  cz :: RulePlugin

text \<open>
  \<open>Check._valid_command_argument\<close>, on the three attributes it reads; the result is
  \<open>self.commit_msg\<close> as the method leaves it.
\<close>

definition Check_valid_command_argument ::
  "env \<Rightarrow> string option \<Rightarrow> string option \<Rightarrow> string option \<Rightarrow> error + string option" where
  "Check_valid_command_argument e msg_file msg revs =
     (let num_exclusive_args_provided =
            sum_list (map (\<lambda>arg. if arg \<noteq> None then 1 else 0) [msg_file, msg, revs]) :: nat
      in if num_exclusive_args_provided = 0 \<and> \<not> stdin_isatty e then Inr (Some (stdin_read e))
         else if num_exclusive_args_provided \<noteq> 1 then
           Inl (InvalidCommandArgumentError
                  (''Only one of --rev-range, --message, and --commit-msg-file is permitted by check command! ''
                   @ ''See '' @ [squote] @ ''cz check -h'' @ [squote] @ '' for more information''))
         else Inr msg)"

text \<open>\<open>Check.__init__\<close>\<close>

definition Check_init :: "env \<Rightarrow> BaseConfig \<Rightarrow> arguments \<Rightarrow> error + Check" where
  "Check_init e cfg args =
     (let abort = (case arg_allow_abort args of None \<Rightarrow> settings_allow_abort cfg | Some b \<Rightarrow> b);
          limit = (case arg_message_length_limit args of None \<Rightarrow> 0 | Some n \<Rightarrow> n);
          prefixes = (case arg_allowed_prefixes args of
                        Some ps \<Rightarrow> ps
                      | None \<Rightarrow> settings_allowed_prefixes cfg)
      in case Check_valid_command_argument e
                (arg_commit_msg_file args) (arg_message args) (arg_rev_range args) of
           Inl err \<Rightarrow> Inl err
         | Inr msg \<Rightarrow>
             (case commiter_factory e cfg of
                Inl err \<Rightarrow> Inl err
              | Inr plugin \<Rightarrow>
                  Inr \<lparr> commit_msg_file = arg_commit_msg_file args,
                        commit_msg = msg,
                        rev_range = arg_rev_range args,
                        allow_abort = abort,
                        max_msg_length = limit,
                        allowed_prefixes = prefixes,
                        config = cfg,
                        encoding = settings_encoding cfg,
                        cz = plugin \<rparr>))"

text \<open>\<open>Check._filter_comments\<close>: the loop over the lines, then the join.\<close>

definition verbose_diff_delimiter :: string where
  "verbose_diff_delimiter = ''# ------------------------ >8 ------------------------''"

fun filter_comments_loop :: "string list \<Rightarrow> string list \<Rightarrow> string list" where
  "filter_comments_loop [] lines = lines"
| "filter_comments_loop (line # rest) lines =
     (if str_contains line verbose_diff_delimiter then lines
      else if \<not> startswith line ''#'' then filter_comments_loop rest (lines @ [line])
      else filter_comments_loop rest lines)"

definition Check_filter_comments :: "string \<Rightarrow> string" where
  "Check_filter_comments msg = str_join [nl] (filter_comments_loop (str_split msg nl) [])"

text \<open>
  The comment filter as the specification words it: stop at the first line that is
  exactly the delimiter, drop the lines before it that start with \<open>#\<close>, join the rest.
\<close>

definition filter_comments_spec :: "string \<Rightarrow> string" where
  "filter_comments_spec msg =
     str_join [nl]
       (filter (\<lambda>line. \<not> startswith line ''#'')
          (takeWhile (\<lambda>line. line \<noteq> verbose_diff_delimiter) (str_split msg nl)))"

text \<open>\<open>Check._get_commits\<close>\<close>

definition Check_get_commits :: "env \<Rightarrow> Check \<Rightarrow> error + GitCommit list" where
  "Check_get_commits e self =
     (let msg = (case commit_msg_file self of
                   Some path \<Rightarrow>
                     (case open_read e path (encoding self) of
                        Inl err \<Rightarrow> Inl err
                      | Inr text \<Rightarrow> Inr (Some text))
                 | None \<Rightarrow> Inr (commit_msg self))
      in case msg of
           Inl err \<Rightarrow> Inl err
         | Inr (Some text) \<Rightarrow>
             Inr [\<lparr> rev_id = [], title = [], body = Check_filter_comments text \<rparr>]
         | Inr None \<Rightarrow> git_get_commits e (rev_range self))"

text \<open>
  The list comprehension of \<open>Check.__call__\<close>: every commit is checked, in order, and
  the ones whose check fails are kept with the reasons the check gave.
\<close>

fun ill_formated_commits ::
  "(GitCommit \<Rightarrow> error + (bool \<times> string list)) \<Rightarrow> GitCommit list
     \<Rightarrow> error + (GitCommit \<times> string list) list" where
  "ill_formated_commits check [] = Inr []"
| "ill_formated_commits check (commit # commits) =
     (case check commit of
        Inl err \<Rightarrow> Inl err
      | Inr result \<Rightarrow>
          (case ill_formated_commits check commits of
             Inl err \<Rightarrow> Inl err
           | Inr others \<Rightarrow>
               Inr (if \<not> fst result then (commit, snd result) # others else others)))"

text \<open>\<open>str(x)\<close> of an optional string, as an f-string interpolates it.\<close>

definition str_optional :: "string option \<Rightarrow> string" where
  "str_optional x = (case x of None \<Rightarrow> ''None'' | Some s \<Rightarrow> s)"

text \<open>What \<open>out.success\<close> has printed.\<close>

datatype out_line = Success string

text \<open>
  \<open>Check.__call__\<close>: the result, or the exception raised, and the output after the call.
\<close>

definition Check_call :: "env \<Rightarrow> Check \<Rightarrow> out_line list \<Rightarrow> (error + unit) \<times> out_line list" where
  "Check_call e self out =
     (case Check_get_commits e self of
        Inl err \<Rightarrow> (Inl err, out)
      | Inr commits \<Rightarrow>
          if commits = [] then
            (Inl (NoCommitsFoundError
                    (''No commit found with range: '' @ [squote]
                     @ str_optional (rev_range self) @ [squote])), out)
          else
            (case plugin_schema_pattern (cz self) of
               Inl err \<Rightarrow> (Inl err, out)
             | Inr pattern \<Rightarrow>
                 (case ill_formated_commits
                         (\<lambda>commit. plugin_validate_commit_message (cz self)
                                      (git_message e commit) pattern (allow_abort self)
                                      (allowed_prefixes self) (max_msg_length self))
                         commits of
                    Inl err \<Rightarrow> (Inl err, out)
                  | Inr failed \<Rightarrow>
                      if failed \<noteq> [] then
                        (Inl (InvalidCommitMessageError
                                (plugin_format_exception_message (cz self) failed)), out)
                      else (Inr (), out @ [Success ''Commit validation: successful!'']))))"


section \<open>An example rule, configuration and environment\<close>

text \<open>
  \<open>re.match\<close> for a pattern of literal characters only: the message starts with them.
\<close>

definition literal_re_match :: regex_engine where
  "literal_re_match pat msg = Inr (startswith msg pat)"

text \<open>The same engine, on which the pattern \<open>(\<close> does not compile.\<close>

definition strict_re_match :: regex_engine where
  "strict_re_match pat msg =
     (if pat = ''('' then Inl (OtherError ''re.error'') else literal_re_match pat msg)"

text \<open>
  In the examples the message of a commit is its title, an empty line and its body,
  stripped of surrounding whitespace.
\<close>

definition example_message :: "GitCommit \<Rightarrow> string" where
  "example_message commit = str_strip (title commit @ [nl, nl] @ body commit)"

text \<open>
  A rule that keeps the methods of \<open>BaseCommitizen\<close> and overrides \<open>schema_pattern\<close>.
\<close>

definition example_cz :: RulePlugin where
  "example_cz =
     (BaseCommitizen literal_re_match example_message ''<bound method schema_pattern>'')
       \<lparr> plugin_schema_pattern := Inr (Some ''feat: '') \<rparr>"

definition example_config :: BaseConfig where
  "example_config =
     \<lparr> settings_allow_abort = False,
       settings_allowed_prefixes = [''Merge'', ''Revert''],
       settings_encoding = ''utf-8'' \<rparr>"

text \<open>
  An environment with one readable file (the template of an aborted commit) and a fixed
  git history.
\<close>

definition example_env :: "bool \<Rightarrow> string \<Rightarrow> GitCommit list \<Rightarrow> env" where
  "example_env tty input history =
     \<lparr> stdin_isatty = tty,
       stdin_read = input,
       open_read = (\<lambda>path enc.
          if path = ''COMMIT_EDITMSG'' then
            Inr ''# Please enter the commit message.\<newline># Lines starting with # are ignored.\<newline>''
          else Inl (OtherError ''FileNotFoundError'')),
       git_get_commits = (\<lambda>end_rev. Inr history),
       git_message = example_message,
       commiter_factory = (\<lambda>cfg. Inr example_cz) \<rparr>"

definition example_arguments :: "string option \<Rightarrow> string option \<Rightarrow> string option \<Rightarrow> arguments" where
  "example_arguments msg_file msg revs =
     \<lparr> arg_commit_msg_file = msg_file,
       arg_message = msg,
       arg_rev_range = revs,
       arg_allow_abort = None,
       arg_message_length_limit = None,
       arg_allowed_prefixes = None \<rparr>"

definition example_check :: "string option \<Rightarrow> string option \<Rightarrow> string option \<Rightarrow> Check" where
  "example_check msg_file msg revs =
     \<lparr> commit_msg_file = msg_file,
       commit_msg = msg,
       rev_range = revs,
       allow_abort = False,
       max_msg_length = 0,
       allowed_prefixes = [''Merge'', ''Revert''],
       config = example_config,
       encoding = ''utf-8'',
       cz = example_cz \<rparr>"

definition example_good_commit :: GitCommit where
  "example_good_commit = \<lparr> rev_id = ''a1b2'', title = ''feat: add x'', body = [] \<rparr>"

definition example_bad_commit :: GitCommit where
  "example_bad_commit = \<lparr> rev_id = ''c3d4'', title = ''bad message'', body = [] \<rparr>"

definition example_other_bad_commit :: GitCommit where
  "example_other_bad_commit =
     \<lparr> rev_id = ''e5f6'', title = ''fixed things'', body = ''details'' \<rparr>"


section \<open>Facts about the string operations\<close>

lemma startswith_iff_append: "startswith s p \<longleftrightarrow> (\<exists>t. s = p @ t)"
  by (induction s p rule: startswith.induct) auto

lemma startswith_Nil [simp]: "startswith [] p \<longleftrightarrow> p = []"
  by (cases p) simp_all

lemma list_ex_startswith_iff:
  "list_ex (startswith s) ps \<longleftrightarrow> (\<exists>p \<in> set ps. \<exists>t. s = p @ t)"
  by (simp add: list_ex_iff startswith_iff_append)

lemma fst_str_partition: "fst (str_partition s sep) = takeWhile (\<lambda>c. c \<noteq> sep) s"
proof (cases "dropWhile (\<lambda>c. c \<noteq> sep) s = []")
  case True
  then have "\<forall>c \<in> set s. c \<noteq> sep"
    by (simp add: dropWhile_eq_Nil_conv)
  then have "takeWhile (\<lambda>c. c \<noteq> sep) s = s"
    by (simp add: takeWhile_eq_all_conv)
  moreover from True have "fst (str_partition s sep) = s"
    by (simp add: str_partition_def)
  ultimately show ?thesis by (simp only:)
next
  case False
  then show ?thesis by (auto simp add: str_partition_def)
qed

lemma str_contains_iff: "str_contains s sub \<longleftrightarrow> (\<exists>a b. s = a @ sub @ b)"
proof (induction s)
  case Nil
  then show ?case by auto
next
  case (Cons c s)
  show ?case
  proof
    assume "str_contains (c # s) sub"
    then consider "startswith (c # s) sub" | "str_contains s sub" by auto
    then show "\<exists>a b. c # s = a @ sub @ b"
    proof cases
      case 1
      then obtain t where "c # s = sub @ t" by (auto simp add: startswith_iff_append)
      then have "c # s = [] @ sub @ t" by simp
      then show ?thesis by blast
    next
      case 2
      with Cons.IH obtain a b where "s = a @ sub @ b" by blast
      then have "c # s = (c # a) @ sub @ b" by simp
      then show ?thesis by blast
    qed
  next
    assume "\<exists>a b. c # s = a @ sub @ b"
    then obtain a b where ab: "c # s = a @ sub @ b" by blast
    show "str_contains (c # s) sub"
    proof (cases a)
      case Nil
      with ab have "startswith (c # s) sub" by (auto simp add: startswith_iff_append)
      then show ?thesis by simp
    next
      case (Cons x a')
      with ab have "s = a' @ sub @ b" by simp
      with Cons.IH have "str_contains s sub" by blast
      then show ?thesis by simp
    qed
  qed
qed

lemma filter_comments_loop_eq:
  "filter_comments_loop ls acc =
     acc @ filter (\<lambda>line. \<not> startswith line ''#'')
             (takeWhile (\<lambda>line. \<not> str_contains line verbose_diff_delimiter) ls)"
  by (induction ls arbitrary: acc) simp_all

lemma str_split_not_Nil [simp]: "str_split s sep \<noteq> []"
  by (induction s) (auto split: list.split)

lemma str_split_no_sep: "piece \<in> set (str_split s sep) \<Longrightarrow> sep \<notin> set piece"
  by (induction s arbitrary: piece) (auto split: list.splits if_splits)

lemma str_join_str_split: "str_join [sep] (str_split s sep) = s"
proof (induction s)
  case Nil
  then show ?case by simp
next
  case (Cons c s)
  obtain piece pieces where sp: "str_split s sep = piece # pieces"
    by (cases "str_split s sep") simp_all
  show ?case
  proof (cases "c = sep")
    case True
    with Cons sp show ?thesis by simp
  next
    case False
    with Cons sp show ?thesis by (cases pieces) auto
  qed
qed

lemma str_split_no_sep_id: "sep \<notin> set piece \<Longrightarrow> str_split piece sep = [piece]"
  by (induction piece) auto

lemma str_split_append_sep:
  "sep \<notin> set piece \<Longrightarrow> str_split (piece @ sep # rest) sep = piece # str_split rest sep"
  by (induction piece) auto

lemma str_split_str_join:
  "pieces \<noteq> [] \<Longrightarrow> (\<And>piece. piece \<in> set pieces \<Longrightarrow> sep \<notin> set piece) \<Longrightarrow>
   str_split (str_join [sep] pieces) sep = pieces"
proof (induction pieces)
  case Nil
  then show ?case by simp
next
  case (Cons piece pieces)
  have no_sep: "sep \<notin> set piece" using Cons.prems(2) by simp
  show ?case
  proof (cases pieces)
    case Nil
    with no_sep show ?thesis by (simp add: str_split_no_sep_id)
  next
    case (Cons other others)
    with Cons.IH Cons.prems(2) have "str_split (str_join [sep] pieces) sep = pieces"
      by simp
    with Cons no_sep show ?thesis by (simp add: str_split_append_sep)
  qed
qed

lemma filter_comments_eq:
  "Check_filter_comments msg =
     str_join [nl]
       (filter (\<lambda>line. \<not> startswith line ''#'')
          (takeWhile (\<lambda>line. \<not> str_contains line verbose_diff_delimiter) (str_split msg nl)))"
  by (simp add: Check_filter_comments_def filter_comments_loop_eq)

lemma filter_comments_clean_lines:
  assumes "pieces \<noteq> []"
    and "\<And>piece. piece \<in> set pieces \<Longrightarrow> nl \<notin> set piece"
    and "\<And>piece. piece \<in> set pieces \<Longrightarrow> \<not> startswith piece ''#''"
    and "\<And>piece. piece \<in> set pieces \<Longrightarrow> \<not> str_contains piece verbose_diff_delimiter"
  shows "Check_filter_comments (str_join [nl] pieces) = str_join [nl] pieces"
proof -
  have a: "str_split (str_join [nl] pieces) nl = pieces"
    using assms(1,2) by (rule str_split_str_join)
  have b: "takeWhile (\<lambda>line. \<not> str_contains line verbose_diff_delimiter) pieces = pieces"
    using assms(4) by (simp add: takeWhile_eq_all_conv)
  have c: "filter (\<lambda>line. \<not> startswith line ''#'') pieces = pieces"
    using assms(3) by (simp add: filter_id_conv)
  show ?thesis unfolding filter_comments_eq a b c ..
qed

lemma filter_comments_Nil: "Check_filter_comments [] = []"
  by (simp add: Check_filter_comments_def verbose_diff_delimiter_def)

lemma filter_comments_idem:
  "Check_filter_comments (Check_filter_comments msg) = Check_filter_comments msg"
proof -
  define kept where "kept = filter (\<lambda>line. \<not> startswith line ''#'')
          (takeWhile (\<lambda>line. \<not> str_contains line verbose_diff_delimiter) (str_split msg nl))"
  have eq: "Check_filter_comments msg = str_join [nl] kept"
    by (simp add: filter_comments_eq kept_def)
  show ?thesis
  proof (cases "kept = []")
    case True
    with eq show ?thesis by (simp add: filter_comments_Nil)
  next
    case False
    have in_split: "piece \<in> set (str_split msg nl)" if "piece \<in> set kept" for piece
      using that by (auto simp add: kept_def dest: set_takeWhileD)
    have "Check_filter_comments (str_join [nl] kept) = str_join [nl] kept"
    proof (rule filter_comments_clean_lines [OF False])
      fix piece assume "piece \<in> set kept"
      then show "nl \<notin> set piece" using in_split str_split_no_sep by blast
    next
      fix piece assume "piece \<in> set kept"
      then show "\<not> startswith piece ''#''" by (simp add: kept_def)
    next
      fix piece assume "piece \<in> set kept"
      then show "\<not> str_contains piece verbose_diff_delimiter"
        by (auto simp add: kept_def dest: set_takeWhileD)
    qed
    with eq show ?thesis by simp
  qed
qed


section \<open>Facts about the check command\<close>

lemma validate_Nil:
  "validate_commit_message re_match [] pattern abort prefixes limit = Inr (abort, [])"
  by (simp add: validate_commit_message_def)

lemma ill_formated_commits_total:
  assumes "\<forall>commit \<in> set commits. check commit = Inr (passed commit, reasons commit)"
  shows "ill_formated_commits check commits
           = Inr (map (\<lambda>commit. (commit, reasons commit))
                    (filter (\<lambda>commit. \<not> passed commit) commits))"
  using assms by (induction commits) simp_all

lemma format_exception_message_map:
  "format_exception_message message schema_pattern_str
       (map (\<lambda>commit. (commit, reasons commit)) failed)
     = ''commit validation: failed!\<newline>''
       @ ''please enter a commit message in the commitizen format.\<newline>''
       @ str_join [nl]
           (map (\<lambda>commit. ''commit '' @ [dquote] @ rev_id commit @ [dquote] @ '': ''
                              @ [dquote] @ message commit @ [dquote]) failed)
       @ [nl] @ ''pattern: '' @ schema_pattern_str"
  by (simp add: format_exception_message_def comp_def)

lemma filter_not_passed_Nil: "filter (\<lambda>commit. \<not> passed commit) commits = [] \<longleftrightarrow> list_all passed commits"
  by (induction commits) simp_all

lemma check_call_total:
  assumes commits: "Check_get_commits e self = Inr commits"
    and nonempty: "commits \<noteq> []"
    and pattern: "plugin_schema_pattern (cz self) = Inr pattern"
    and checks: "\<forall>commit \<in> set commits.
             plugin_validate_commit_message (cz self) (git_message e commit) pattern
               (allow_abort self) (allowed_prefixes self) (max_msg_length self)
             = Inr (passed commit, reasons commit)"
  shows "Check_call e self out =
     (if list_all passed commits
      then (Inr (), out @ [Success ''Commit validation: successful!''])
      else (Inl (InvalidCommitMessageError
                   (plugin_format_exception_message (cz self)
                      (map (\<lambda>commit. (commit, reasons commit))
                         (filter (\<lambda>commit. \<not> passed commit) commits)))), out))"
proof -
  have "ill_formated_commits
          (\<lambda>commit. plugin_validate_commit_message (cz self) (git_message e commit) pattern
                       (allow_abort self) (allowed_prefixes self) (max_msg_length self))
          commits
        = Inr (map (\<lambda>commit. (commit, reasons commit))
                 (filter (\<lambda>commit. \<not> passed commit) commits))"
    using checks by (rule ill_formated_commits_total)
  then show ?thesis
    using commits nonempty pattern
    by (simp add: Check_call_def filter_not_passed_Nil)
qed

lemma get_commits_file:
  "commit_msg_file self = Some path \<Longrightarrow> open_read e path (encoding self) = Inr text \<Longrightarrow>
   Check_get_commits e self = Inr [\<lparr> rev_id = [], title = [], body = Check_filter_comments text \<rparr>]"
  by (simp add: Check_get_commits_def)

lemma get_commits_inline:
  "commit_msg_file self = None \<Longrightarrow> commit_msg self = Some text \<Longrightarrow>
   Check_get_commits e self = Inr [\<lparr> rev_id = [], title = [], body = Check_filter_comments text \<rparr>]"
  by (simp add: Check_get_commits_def)

lemma get_commits_empty:
  "Check_get_commits e self = Inr [] \<Longrightarrow> commit_msg_file self = None \<and> commit_msg self = None"
  by (auto simp add: Check_get_commits_def split: option.splits sum.splits)

lemma filter_comments_all_comments:
  assumes "list_all (\<lambda>line. startswith line ''#'') (str_split msg nl)"
  shows "Check_filter_comments msg = []"
proof -
  have "filter (\<lambda>line. \<not> startswith line ''#'') ls = []"
    if "list_all (\<lambda>line. startswith line ''#'') ls" for ls
    using that by (induction ls) simp_all
  moreover have "list_all (\<lambda>line. startswith line ''#'')
        (takeWhile (\<lambda>line. \<not> str_contains line verbose_diff_delimiter) (str_split msg nl))"
    using assms by (auto simp add: list_all_iff dest: set_takeWhileD)
  ultimately show ?thesis by (simp add: filter_comments_eq)
qed

lemma filter_comments_comment_only:
  assumes "list_all (\<lambda>line. startswith line ''#'') (butlast (str_split raw nl))"
    and "last (str_split raw nl) = [] \<or> startswith (last (str_split raw nl)) ''#''"
  shows "Check_filter_comments raw = []"
proof -
  define front where "front = butlast (str_split raw nl)"
  define final where "final = last (str_split raw nl)"
  let ?stop = "\<lambda>line. \<not> str_contains line verbose_diff_delimiter"
  let ?keep = "\<lambda>line. \<not> startswith line ''#''"
  have pieces: "str_split raw nl = front @ [final]"
    by (simp add: front_def final_def)
  have front_dropped: "filter ?keep ls = []" if "set ls \<subseteq> set front" for ls
    using that assms(1) by (auto simp add: front_def list_all_iff filter_empty_conv)
  have final_kept: "str_join [nl] (filter ?keep (takeWhile ?stop [final])) = []"
    using assms(2) by (auto simp add: final_def)
  have "str_join [nl] (filter ?keep (takeWhile ?stop (front @ [final]))) = []"
  proof (cases "\<forall>line \<in> set front. ?stop line")
    case True
    then have "takeWhile ?stop (front @ [final]) = front @ takeWhile ?stop [final]"
      by (intro takeWhile_append2) blast
    with front_dropped [of front] final_kept show ?thesis by simp
  next
    case False
    then obtain line where "line \<in> set front" and "\<not> ?stop line" by blast
    then have "takeWhile ?stop (front @ [final]) = takeWhile ?stop front"
      by (rule takeWhile_append1)
    moreover have "set (takeWhile ?stop front) \<subseteq> set front"
      by (auto dest: set_takeWhileD)
    ultimately show ?thesis using front_dropped by simp
  qed
  then show ?thesis by (simp add: filter_comments_eq pieces)
qed

lemma valid_command_argument_many:
  "(msg_file \<noteq> None \<and> msg \<noteq> None) \<or> (msg_file \<noteq> None \<and> revs \<noteq> None) \<or> (msg \<noteq> None \<and> revs \<noteq> None) \<Longrightarrow>
   Check_valid_command_argument e msg_file msg revs =
     Inl (InvalidCommandArgumentError
            (''Only one of --rev-range, --message, and --commit-msg-file is permitted by check command! ''
             @ ''See '' @ [squote] @ ''cz check -h'' @ [squote] @ '' for more information''))"
  by (auto simp add: Check_valid_command_argument_def)

lemma valid_command_argument_none:
  "Check_valid_command_argument e None None None =
     (if stdin_isatty e then
        Inl (InvalidCommandArgumentError
            (''Only one of --rev-range, --message, and --commit-msg-file is permitted by check command! ''
             @ ''See '' @ [squote] @ ''cz check -h'' @ [squote] @ '' for more information''))
      else Inr (Some (stdin_read e)))"
  by (simp add: Check_valid_command_argument_def)

lemma check_init_no_arguments:
  assumes "arg_commit_msg_file args = None" "arg_message args = None" "arg_rev_range args = None"
    and "Check_init e cfg args = Inr self"
  shows "commit_msg_file self = None \<and> commit_msg self = Some (stdin_read e)"
  using assms
  by (auto simp add: Check_init_def valid_command_argument_none split: if_splits sum.splits)

lemma check_call_empty_message:
  assumes commits: "Check_get_commits e self = Inr [\<lparr> rev_id = [], title = [], body = [] \<rparr>]"
    and message: "git_message e \<lparr> rev_id = [], title = [], body = [] \<rparr> = []"
    and pattern: "plugin_schema_pattern (cz self) = Inr pattern"
    and validate: "plugin_validate_commit_message (cz self) = validate_commit_message re_match"
  shows "Check_call e self out =
     (if allow_abort self then (Inr (), out @ [Success ''Commit validation: successful!''])
      else (Inl (InvalidCommitMessageError
                   (plugin_format_exception_message (cz self)
                      [(\<lparr> rev_id = [], title = [], body = [] \<rparr>, [])])), out))"
proof -
  have "\<forall>commit \<in> set [\<lparr> rev_id = [], title = [], body = [] \<rparr>].
           plugin_validate_commit_message (cz self) (git_message e commit) pattern
             (allow_abort self) (allowed_prefixes self) (max_msg_length self)
           = Inr (allow_abort self, [])"
    by (simp add: validate message validate_Nil)
  from check_call_total [OF commits _ pattern this, of out]
  show ?thesis by simp
qed


section \<open>Validation of one message\<close>

text \<open>
  C4. The empty message is valid exactly when aborted commits are allowed: for every
  pattern, prefix list and length limit (and whatever the regular expression engine
  would do) the result is \<open>(allow_abort, [])\<close>.
\<close>

theorem validate_empty_message:
  "validate_commit_message re_match [] pattern abort prefixes limit
     = Inr (abort, [])"
  by (simp add: validate_commit_message_def)

theorem validate_empty_message_witness:
  "validate_commit_message (\<lambda>p m. Inl (OtherError ''re.error'')) [] (Some ''('')
       False [''Merge''] 5 = Inr (False, [])
   \<and> validate_commit_message (\<lambda>p m. Inr False) [] None True [] 0 = Inr (True, [])"
  using validate_empty_message [of "\<lambda>p m. Inl (OtherError ''re.error'')" "Some ''(''" False "[''Merge'']" 5]
    validate_empty_message [of "\<lambda>p m. Inr False" None True "[]" 0]
  by simp

text \<open>
  C1, as stated, fails on the empty message: with no pattern and aborted commits not
  allowed, the empty message is rejected, since the empty-message test comes first.
\<close>

theorem validate_null_pattern_counterexample:
  "validate_commit_message (\<lambda>p m. Inr True) [] None False [] 0 = Inr (False, [])
   \<and> validate_commit_message (\<lambda>p m. Inr True) [] None False [] 0 \<noteq> Inr (True, [])"
  by (simp add: validate_commit_message_def)

text \<open>
  C1, amended. With no pattern, every non-empty message is valid, and so is the empty
  message when aborted commits are allowed: the result is \<open>(True, [])\<close> for every
  prefix list and length limit.
\<close>

theorem validate_null_pattern:
  "message \<noteq> [] \<or> abort \<Longrightarrow>
   validate_commit_message re_match message None abort prefixes limit
     = Inr (True, [])"
  by (auto simp add: validate_commit_message_def)

theorem validate_null_pattern_witness:
  "validate_commit_message (\<lambda>p m. Inr False) ''no structure at all'' None False [''Merge''] 5
     = Inr (True, [])
   \<and> validate_commit_message (\<lambda>p m. Inr False) [] None True [''Merge''] 5 = Inr (True, [])"
  using validate_null_pattern [of "''no structure at all''" False "\<lambda>p m. Inr False" "[''Merge'']" 5]
    validate_null_pattern [of "[]" True "\<lambda>p m. Inr False" "[''Merge'']" 5]
  by simp

text \<open>
  C2. A non-empty message that starts with one of the allowed prefixes is valid, for
  every pattern (none, or one the message does not match, or one the engine cannot
  compile), every \<open>allow_abort\<close> and every length limit, also one the first line exceeds.
\<close>

theorem validate_allowed_prefix:
  assumes "message \<noteq> []"
    and "p \<in> set prefixes"
    and "message = p @ rest"
  shows "validate_commit_message re_match message pattern abort prefixes
           limit = Inr (True, [])"
proof -
  have "list_ex (startswith message) prefixes"
    unfolding list_ex_startswith_iff using assms(2,3) by blast
  with assms(1) show ?thesis
    by (simp add: validate_commit_message_def split: option.split)
qed

theorem validate_allowed_prefix_witness:
  "validate_commit_message (\<lambda>p m. Inr False) ''Merge branch x into a very long branch name''
     (Some ''feat: .*'') False [''Revert'', ''Merge''] 10 = Inr (True, [])"
proof -
  have h1: "''Merge branch x into a very long branch name'' \<noteq> []" by simp
  have h2: "''Merge'' \<in> set [''Revert'', ''Merge'']" by simp
  have h3: "''Merge branch x into a very long branch name''
              = ''Merge'' @ '' branch x into a very long branch name''" by simp
  show ?thesis by (rule validate_allowed_prefix [OF h1 h2 h3])
qed

text \<open>
  C3, as stated, fails when there is no pattern: a first line over the limit is then
  accepted, since the test for a missing pattern comes before the length test.
\<close>

theorem validate_too_long_counterexample:
  "(0::int) < 10
   \<and> 10 < int (length (str_strip (fst (str_partition ''a subject line of more than ten characters'' nl))))
   \<and> \<not> list_ex (startswith ''a subject line of more than ten characters'') [''Merge'']
   \<and> validate_commit_message (\<lambda>p m. Inr True) ''a subject line of more than ten characters''
         None False [''Merge''] 10 = Inr (True, [])"
  by (simp add: validate_commit_message_def fst_str_partition str_strip_def isspace_def)

text \<open>
  C3, amended. Under a pattern (not null), a message that starts with no allowed prefix
  and whose first line, stripped of leading and trailing whitespace, is longer than a
  positive \<open>max_msg_length\<close> is rejected with \<open>(False, [])\<close>, whatever the pattern
  would match.
\<close>

theorem validate_too_long:
  assumes "0 < limit"
    and "limit < int (length (str_strip (takeWhile (\<lambda>c. c \<noteq> nl) message)))"
    and "\<not> (\<exists>p \<in> set prefixes. \<exists>rest. message = p @ rest)"
  shows "validate_commit_message re_match message (Some pat) abort prefixes
           limit = Inr (False, [])"
proof -
  have "message \<noteq> []"
    using assms(1,2) by (auto simp add: str_strip_def)
  moreover have "\<not> list_ex (startswith message) prefixes"
    unfolding list_ex_startswith_iff using assms(3) .
  ultimately show ?thesis
    using assms(1,2) by (simp add: validate_commit_message_def fst_str_partition)
qed

theorem validate_too_long_witness:
  "(0::int) < 10
   \<and> 10 < int (length (str_strip (takeWhile (\<lambda>c. c \<noteq> nl) ''  feat: a long subject  '')))
   \<and> \<not> (\<exists>p \<in> set [''Merge'']. \<exists>rest. ''  feat: a long subject  '' = p @ rest)
   \<and> validate_commit_message (\<lambda>p m. Inr True) ''  feat: a long subject  '' (Some ''feat: .*'')
         True [''Merge''] 10 = Inr (False, [])"
proof -
  have h1: "(0::int) < 10" by simp
  have h2: "10 < int (length (str_strip (takeWhile (\<lambda>c. c \<noteq> nl) ''  feat: a long subject  '')))"
    by (simp add: str_strip_def isspace_def)
  have h3: "\<not> (\<exists>p \<in> set [''Merge'']. \<exists>rest. ''  feat: a long subject  '' = p @ rest)"
    by simp
  from validate_too_long [OF h1 h2 h3, of "\<lambda>p m. Inr True" "''feat: .*''" True] h1 h2 h3
  show ?thesis by blast
qed


section \<open>The comment filter\<close>

text \<open>
  C5, as stated, fails: the loop stops at the first line that contains the delimiter,
  not only at a line that is exactly the delimiter. With a space after the delimiter
  the code drops the diff below it, and the filter as the specification words it
  keeps the diff.
\<close>

theorem filter_comments_exact_delimiter_counterexample:
  "Check_filter_comments
     ''feat: x\<newline># ------------------------ >8 ------------------------ \<newline>diff --git a b''
     = ''feat: x''
   \<and> filter_comments_spec
     ''feat: x\<newline># ------------------------ >8 ------------------------ \<newline>diff --git a b''
     = ''feat: x\<newline>diff --git a b''"
  by (simp add: Check_filter_comments_def filter_comments_spec_def verbose_diff_delimiter_def)

text \<open>
  C5, amended. The comment filter splits its input into lines on newline, stops at the
  first line that contains the verbose-diff delimiter (that line and every later line
  are discarded), discards an earlier line exactly when it starts with \<open>#\<close>, and joins
  the kept lines with newline; on the input of the specification's example it returns
  \<open>feat: x\<close>, newline, \<open>body\<close>.
\<close>

theorem filter_comments_correct:
  "Check_filter_comments msg =
     str_join [nl]
       (filter (\<lambda>line. \<not> startswith line ''#'')
          (takeWhile (\<lambda>line. \<not> str_contains line verbose_diff_delimiter) (str_split msg nl)))
   \<and> Check_filter_comments
       ''feat: x\<newline># comment\<newline>body\<newline># ------------------------ >8 ------------------------\<newline>diff --git a b''
     = ''feat: x\<newline>body''"
proof
  show "Check_filter_comments msg =
     str_join [nl]
       (filter (\<lambda>line. \<not> startswith line ''#'')
          (takeWhile (\<lambda>line. \<not> str_contains line verbose_diff_delimiter) (str_split msg nl)))"
    by (rule filter_comments_eq)
  show "Check_filter_comments
       ''feat: x\<newline># comment\<newline>body\<newline># ------------------------ >8 ------------------------\<newline>diff --git a b''
     = ''feat: x\<newline>body''"
    by (simp add: Check_filter_comments_def verbose_diff_delimiter_def)
qed

theorem filter_comments_correct_witness:
  "Check_filter_comments ''# only a comment\<newline>fix: y\<newline>see # ------------------------ >8 ------------------------\<newline>+ added''
     = ''fix: y''"
proof -
  have "str_join [nl]
       (filter (\<lambda>line. \<not> startswith line ''#'')
          (takeWhile (\<lambda>line. \<not> str_contains line verbose_diff_delimiter)
             (str_split ''# only a comment\<newline>fix: y\<newline>see # ------------------------ >8 ------------------------\<newline>+ added'' nl)))
     = ''fix: y''"
    by (simp add: verbose_diff_delimiter_def)
  with filter_comments_correct
    [of "''# only a comment\<newline>fix: y\<newline>see # ------------------------ >8 ------------------------\<newline>+ added''"]
  show ?thesis by (simp only:)
qed

text \<open>
  C6. The comment filter is idempotent: filtering a filtered message returns it
  unchanged. Equivalently, a message none of whose lines starts with \<open>#\<close> or makes the
  loop stop (none contains the delimiter) is returned unchanged.
\<close>

theorem filter_comments_idempotent:
  "Check_filter_comments (Check_filter_comments msg) = Check_filter_comments msg
   \<and> (list_all (\<lambda>line. \<not> startswith line ''#'' \<and> \<not> str_contains line verbose_diff_delimiter)
         (str_split msg nl)
       \<longrightarrow> Check_filter_comments msg = msg)"
proof (intro conjI impI)
  show "Check_filter_comments (Check_filter_comments msg) = Check_filter_comments msg"
    by (rule filter_comments_idem)
next
  assume clean: "list_all (\<lambda>line. \<not> startswith line ''#'' \<and> \<not> str_contains line verbose_diff_delimiter)
         (str_split msg nl)"
  have "Check_filter_comments (str_join [nl] (str_split msg nl)) = str_join [nl] (str_split msg nl)"
  proof (rule filter_comments_clean_lines)
    show "str_split msg nl \<noteq> []" by simp
  next
    fix piece assume "piece \<in> set (str_split msg nl)"
    then show "nl \<notin> set piece" by (rule str_split_no_sep)
  next
    fix piece assume "piece \<in> set (str_split msg nl)"
    with clean show "\<not> startswith piece ''#''" by (simp add: list_all_iff)
  next
    fix piece assume "piece \<in> set (str_split msg nl)"
    with clean show "\<not> str_contains piece verbose_diff_delimiter" by (simp add: list_all_iff)
  qed
  then show "Check_filter_comments msg = msg"
    by (simp only: str_join_str_split)
qed

theorem filter_comments_idempotent_witness:
  "Check_filter_comments (Check_filter_comments ''fix: y\<newline># note\<newline>\<newline>body'')
     = Check_filter_comments ''fix: y\<newline># note\<newline>\<newline>body''
   \<and> list_all (\<lambda>line. \<not> startswith line ''#'' \<and> \<not> str_contains line verbose_diff_delimiter)
         (str_split ''fix: y\<newline>\<newline>body'' nl)
   \<and> Check_filter_comments ''fix: y\<newline>\<newline>body'' = ''fix: y\<newline>\<newline>body''"
proof -
  have h: "list_all (\<lambda>line. \<not> startswith line ''#'' \<and> \<not> str_contains line verbose_diff_delimiter)
         (str_split ''fix: y\<newline>\<newline>body'' nl)"
    by (simp add: verbose_diff_delimiter_def)
  from filter_comments_idempotent [of "''fix: y\<newline># note\<newline>\<newline>body''"]
    filter_comments_idempotent [of "''fix: y\<newline>\<newline>body''"] h
  show ?thesis by blast
qed


section \<open>Selecting the source of the commits\<close>

text \<open>
  C7. Constructing the check command fails with \<open>InvalidCommandArgumentError\<close> whenever
  more than one of commit-msg-file, message and rev-range is given (not \<open>None\<close>; an
  empty string counts as given), and also when none is given and standard input is a
  terminal. When none is given and standard input is not a terminal, all of standard
  input is read and becomes the inline message: the construction then fails only if the
  plugin factory does, with the factory's error.
\<close>

theorem check_init_selection:
  "((arg_commit_msg_file args \<noteq> None \<and> arg_message args \<noteq> None)
      \<or> (arg_commit_msg_file args \<noteq> None \<and> arg_rev_range args \<noteq> None)
      \<or> (arg_message args \<noteq> None \<and> arg_rev_range args \<noteq> None)
    \<longrightarrow> Check_init e cfg args =
          Inl (InvalidCommandArgumentError
                 (''Only one of --rev-range, --message, and --commit-msg-file is permitted by check command! ''
                  @ ''See '' @ [squote] @ ''cz check -h'' @ [squote] @ '' for more information'')))
   \<and> (arg_commit_msg_file args = None \<and> arg_message args = None \<and> arg_rev_range args = None
        \<and> stdin_isatty e
    \<longrightarrow> Check_init e cfg args =
          Inl (InvalidCommandArgumentError
                 (''Only one of --rev-range, --message, and --commit-msg-file is permitted by check command! ''
                  @ ''See '' @ [squote] @ ''cz check -h'' @ [squote] @ '' for more information'')))
   \<and> (arg_commit_msg_file args = None \<and> arg_message args = None \<and> arg_rev_range args = None
        \<and> \<not> stdin_isatty e
    \<longrightarrow> (case Check_init e cfg args of
            Inl err \<Rightarrow> commiter_factory e cfg = Inl err
          | Inr self \<Rightarrow>
              commit_msg self = Some (stdin_read e) \<and> commit_msg_file self = None
              \<and> rev_range self = None \<and> commiter_factory e cfg = Inr (cz self)))"
proof (intro conjI impI)
  assume "(arg_commit_msg_file args \<noteq> None \<and> arg_message args \<noteq> None)
      \<or> (arg_commit_msg_file args \<noteq> None \<and> arg_rev_range args \<noteq> None)
      \<or> (arg_message args \<noteq> None \<and> arg_rev_range args \<noteq> None)"
  then show "Check_init e cfg args =
          Inl (InvalidCommandArgumentError
                 (''Only one of --rev-range, --message, and --commit-msg-file is permitted by check command! ''
                  @ ''See '' @ [squote] @ ''cz check -h'' @ [squote] @ '' for more information''))"
    unfolding Check_init_def by (simp only: valid_command_argument_many Let_def sum.case)
next
  assume "arg_commit_msg_file args = None \<and> arg_message args = None \<and> arg_rev_range args = None
        \<and> stdin_isatty e"
  then show "Check_init e cfg args =
          Inl (InvalidCommandArgumentError
                 (''Only one of --rev-range, --message, and --commit-msg-file is permitted by check command! ''
                  @ ''See '' @ [squote] @ ''cz check -h'' @ [squote] @ '' for more information''))"
    unfolding Check_init_def by (simp add: valid_command_argument_none)
next
  assume "arg_commit_msg_file args = None \<and> arg_message args = None \<and> arg_rev_range args = None
        \<and> \<not> stdin_isatty e"
  then show "case Check_init e cfg args of
            Inl err \<Rightarrow> commiter_factory e cfg = Inl err
          | Inr self \<Rightarrow>
              commit_msg self = Some (stdin_read e) \<and> commit_msg_file self = None
              \<and> rev_range self = None \<and> commiter_factory e cfg = Inr (cz self)"
    unfolding Check_init_def
    by (simp add: valid_command_argument_none split: sum.split)
qed

theorem check_init_selection_witness:
  "Check_init (example_env False ''fix: y'' []) example_config
       (example_arguments None (Some '''') (Some ''master..''))
     = Inl (InvalidCommandArgumentError
             (''Only one of --rev-range, --message, and --commit-msg-file is permitted by check command! ''
              @ ''See '' @ [squote] @ ''cz check -h'' @ [squote] @ '' for more information''))
   \<and> Check_init (example_env True ''fix: y'' []) example_config (example_arguments None None None)
     = Inl (InvalidCommandArgumentError
             (''Only one of --rev-range, --message, and --commit-msg-file is permitted by check command! ''
              @ ''See '' @ [squote] @ ''cz check -h'' @ [squote] @ '' for more information''))
   \<and> (case Check_init (example_env False ''fix: y'' []) example_config
              (example_arguments None None None) of
         Inl err \<Rightarrow> False
       | Inr self \<Rightarrow> commit_msg self = Some ''fix: y'' \<and> commit_msg_file self = None
                      \<and> rev_range self = None \<and> cz self = example_cz)"
proof -
  have h1: "(arg_commit_msg_file (example_arguments None (Some '''') (Some ''master..'')) \<noteq> None
               \<and> arg_message (example_arguments None (Some '''') (Some ''master..'')) \<noteq> None)
      \<or> (arg_commit_msg_file (example_arguments None (Some '''') (Some ''master..'')) \<noteq> None
               \<and> arg_rev_range (example_arguments None (Some '''') (Some ''master..'')) \<noteq> None)
      \<or> (arg_message (example_arguments None (Some '''') (Some ''master..'')) \<noteq> None
               \<and> arg_rev_range (example_arguments None (Some '''') (Some ''master..'')) \<noteq> None)"
    by (simp add: example_arguments_def)
  have h2: "arg_commit_msg_file (example_arguments None None None) = None
      \<and> arg_message (example_arguments None None None) = None
      \<and> arg_rev_range (example_arguments None None None) = None
      \<and> stdin_isatty (example_env True ''fix: y'' [])"
    by (simp add: example_arguments_def example_env_def)
  have h3: "arg_commit_msg_file (example_arguments None None None) = None
      \<and> arg_message (example_arguments None None None) = None
      \<and> arg_rev_range (example_arguments None None None) = None
      \<and> \<not> stdin_isatty (example_env False ''fix: y'' [])"
    by (simp add: example_arguments_def example_env_def)
  note t1 = check_init_selection
    [of "example_arguments None (Some '''') (Some ''master..'')" "example_env False ''fix: y'' []"
      example_config, THEN conjunct1, rule_format, OF h1]
  note t2 = check_init_selection
    [of "example_arguments None None None" "example_env True ''fix: y'' []"
      example_config, THEN conjunct2, THEN conjunct1, rule_format, OF h2]
  note t3 = check_init_selection
    [of "example_arguments None None None" "example_env False ''fix: y'' []"
      example_config, THEN conjunct2, THEN conjunct2, rule_format, OF h3]
  have c3: "case Check_init (example_env False ''fix: y'' []) example_config
              (example_arguments None None None) of
         Inl err \<Rightarrow> False
       | Inr self \<Rightarrow> commit_msg self = Some ''fix: y'' \<and> commit_msg_file self = None
                      \<and> rev_range self = None \<and> cz self = example_cz"
    using t3 by (auto simp add: example_env_def split: sum.splits)
  from t1 t2 c3 show ?thesis by (intro conjI)
qed


section \<open>Running the check\<close>

text \<open>
  C8. When the resolved sequence of commits is empty, the check fails with
  \<open>NoCommitsFoundError\<close>, whose message quotes the requested revision range. This holds
  for every rule plugin, also one whose pattern or validation would raise, and nothing
  is printed: the failure comes before any validation.
\<close>

theorem no_commits_found:
  assumes "Check_get_commits e self = Inr []"
  shows "Check_call e self out =
           (Inl (NoCommitsFoundError
                   (''No commit found with range: '' @ [squote]
                    @ str_optional (rev_range self) @ [squote])), out)"
  using assms by (simp add: Check_call_def)

theorem no_commits_found_witness:
  "Check_call (example_env False [] [])
       ((example_check None None (Some ''v1.0..v1.0''))
          \<lparr> cz := BaseCommitizen (\<lambda>pat msg. Inl (OtherError ''re.error'')) body [] \<rparr>)
       []
     = (Inl (NoCommitsFoundError
               (''No commit found with range: '' @ [squote] @ ''v1.0..v1.0'' @ [squote])), [])"
proof -
  have h: "Check_get_commits (example_env False [] [])
       ((example_check None None (Some ''v1.0..v1.0''))
          \<lparr> cz := BaseCommitizen (\<lambda>pat msg. Inl (OtherError ''re.error'')) body [] \<rparr>)
     = Inr []"
    by (simp add: Check_get_commits_def example_env_def example_check_def)
  have r: "str_optional (rev_range ((example_check None None (Some ''v1.0..v1.0''))
          \<lparr> cz := BaseCommitizen (\<lambda>pat msg. Inl (OtherError ''re.error'')) body [] \<rparr>))
      = ''v1.0..v1.0''"
    by (simp add: str_optional_def example_check_def)
  from no_commits_found [OF h, of "[]"] show ?thesis
    unfolding r .
qed

text \<open>
  C9, as stated, fails in four ways. On the empty sequence no commit fails, yet the check
  raises \<open>NoCommitsFoundError\<close> and prints nothing. With a rule that keeps the
  \<open>schema_pattern\<close> of \<open>BaseCommitizen\<close> the check raises \<open>NotImplementedError\<close> before
  any commit is validated. An exception of a validation (here of the regular expression
  engine) propagates. And with the report of \<open>ValidationCz\<close> a failed commit with one
  reason is rendered as that reason alone, without its revision and its message.
\<close>

theorem check_report_counterexample:
  "Check_call (example_env False [] []) (example_check None None (Some ''v1.0..v1.0'')) []
     = (Inl (NoCommitsFoundError
               (''No commit found with range: '' @ [squote] @ ''v1.0..v1.0'' @ [squote])), [])
   \<and> Check_call (example_env False [] [example_bad_commit])
       ((example_check None None (Some ''master..''))
          \<lparr> cz := BaseCommitizen literal_re_match example_message ''<bound method schema_pattern>'' \<rparr>)
       []
     = (Inl (NotImplementedError ''Not Implemented yet''), [])
   \<and> Check_call (example_env False [] [example_bad_commit])
       ((example_check None None (Some ''master..''))
          \<lparr> cz := (BaseCommitizen strict_re_match example_message ''<bound method schema_pattern>'')
                     \<lparr> plugin_schema_pattern := Inr (Some ''('') \<rparr> \<rparr>)
       []
     = (Inl (OtherError ''re.error''), [])
   \<and> Check_call (example_env False [] [example_bad_commit])
       ((example_check None None (Some ''master..''))
          \<lparr> max_msg_length := 5,
            cz := ValidationCz literal_re_match example_message ''<bound method schema_pattern>'' \<rparr>)
       []
     = (Inl (InvalidCommitMessageError
               (''commit validation: failed!\<newline>''
                @ ''please enter a commit message in the commitizen format.\<newline>''
                @ ''- commit message is too long. Max length is 5\<newline>''
                @ ''pattern: <bound method schema_pattern>'')), [])
   \<and> \<not> str_contains
         (''commit validation: failed!\<newline>''
          @ ''please enter a commit message in the commitizen format.\<newline>''
          @ ''- commit message is too long. Max length is 5\<newline>''
          @ ''pattern: <bound method schema_pattern>'')
         ''c3d4''
   \<and> \<not> str_contains
         (''commit validation: failed!\<newline>''
          @ ''please enter a commit message in the commitizen format.\<newline>''
          @ ''- commit message is too long. Max length is 5\<newline>''
          @ ''pattern: <bound method schema_pattern>'')
         ''bad message''"
proof -
  have msg: "example_message example_bad_commit = ''bad message''"
    by (simp add: example_message_def example_bad_commit_def str_strip_def isspace_def)
  have five: "str_int 5 = ''5''"
    by code_simp
  have a: "Check_call (example_env False [] []) (example_check None None (Some ''v1.0..v1.0'')) []
     = (Inl (NoCommitsFoundError
               (''No commit found with range: '' @ [squote] @ ''v1.0..v1.0'' @ [squote])), [])"
    by (simp add: Check_call_def Check_get_commits_def example_env_def example_check_def
        str_optional_def)
  have b: "Check_call (example_env False [] [example_bad_commit])
       ((example_check None None (Some ''master..''))
          \<lparr> cz := BaseCommitizen literal_re_match example_message ''<bound method schema_pattern>'' \<rparr>)
       []
     = (Inl (NotImplementedError ''Not Implemented yet''), [])"
    by (simp add: Check_call_def Check_get_commits_def example_env_def example_check_def
        BaseCommitizen_def)
  have c: "Check_call (example_env False [] [example_bad_commit])
       ((example_check None None (Some ''master..''))
          \<lparr> cz := (BaseCommitizen strict_re_match example_message ''<bound method schema_pattern>'')
                     \<lparr> plugin_schema_pattern := Inr (Some ''('') \<rparr> \<rparr>)
       []
     = (Inl (OtherError ''re.error''), [])"
    by (simp add: Check_call_def Check_get_commits_def example_env_def example_check_def
        BaseCommitizen_def validate_commit_message_def strict_re_match_def msg)
  have d: "Check_call (example_env False [] [example_bad_commit])
       ((example_check None None (Some ''master..''))
          \<lparr> max_msg_length := 5,
            cz := ValidationCz literal_re_match example_message ''<bound method schema_pattern>'' \<rparr>)
       []
     = (Inl (InvalidCommitMessageError
               (''commit validation: failed!\<newline>''
                @ ''please enter a commit message in the commitizen format.\<newline>''
                @ ''- commit message is too long. Max length is 5\<newline>''
                @ ''pattern: <bound method schema_pattern>'')), [])"
    by (simp add: Check_call_def Check_get_commits_def example_env_def example_check_def
        ValidationCz_def ValidationCz_validate_commit_message_def
        ValidationCz_format_exception_message_def msg five
        fst_str_partition str_strip_def isspace_def del: str_nat.simps)
  have e: "\<not> str_contains
         (''commit validation: failed!\<newline>''
          @ ''please enter a commit message in the commitizen format.\<newline>''
          @ ''- commit message is too long. Max length is 5\<newline>''
          @ ''pattern: <bound method schema_pattern>'')
         ''c3d4''"
    by simp
  have f: "\<not> str_contains
         (''commit validation: failed!\<newline>''
          @ ''please enter a commit message in the commitizen format.\<newline>''
          @ ''- commit message is too long. Max length is 5\<newline>''
          @ ''pattern: <bound method schema_pattern>'')
         ''bad message''"
    by simp
  from a b c d e f show ?thesis by (intro conjI)
qed

text \<open>
  C9, amended. For a non-empty sequence of commits, when the rule's \<open>schema_pattern()\<close>
  returns and its validation returns for each commit, every commit is validated. If at
  least one fails, the check raises \<open>InvalidCommitMessageError\<close> with what the rule's
  \<open>format_exception_message\<close> makes of all the failed commits, in the original order,
  each with the reasons of its validation; the \<open>format_exception_message\<close> of
  \<open>BaseCommitizen\<close> makes of them a report with one line for every failed commit, in
  that order, with its revision and its message. If all pass, the check prints the
  success notification and raises nothing. \<open>passed\<close> and \<open>reasons\<close> name what the
  validation returns for each commit.
\<close>

theorem check_reports_every_failure:
  assumes "Check_get_commits e self = Inr commits"
    and "commits \<noteq> []"
    and "plugin_schema_pattern (cz self) = Inr pattern"
    and "\<forall>commit \<in> set commits.
           plugin_validate_commit_message (cz self) (git_message e commit) pattern
             (allow_abort self) (allowed_prefixes self) (max_msg_length self)
           = Inr (passed commit, reasons commit)"
  shows "Check_call e self out =
     (if list_all passed commits
      then (Inr (), out @ [Success ''Commit validation: successful!''])
      else (Inl (InvalidCommitMessageError
                   (plugin_format_exception_message (cz self)
                      (map (\<lambda>commit. (commit, reasons commit))
                         (filter (\<lambda>commit. \<not> passed commit) commits)))), out))
   \<and> format_exception_message (git_message e) schema_pattern_str
         (map (\<lambda>commit. (commit, reasons commit))
            (filter (\<lambda>commit. \<not> passed commit) commits))
     = ''commit validation: failed!\<newline>''
       @ ''please enter a commit message in the commitizen format.\<newline>''
       @ str_join [nl]
           (map (\<lambda>commit. ''commit '' @ [dquote] @ rev_id commit @ [dquote] @ '': ''
                   @ [dquote] @ git_message e commit @ [dquote])
              (filter (\<lambda>commit. \<not> passed commit) commits))
       @ [nl] @ ''pattern: '' @ schema_pattern_str"
proof
  show "Check_call e self out =
     (if list_all passed commits
      then (Inr (), out @ [Success ''Commit validation: successful!''])
      else (Inl (InvalidCommitMessageError
                   (plugin_format_exception_message (cz self)
                      (map (\<lambda>commit. (commit, reasons commit))
                         (filter (\<lambda>commit. \<not> passed commit) commits)))), out))"
    using assms by (rule check_call_total)
  show "format_exception_message (git_message e) schema_pattern_str
         (map (\<lambda>commit. (commit, reasons commit))
            (filter (\<lambda>commit. \<not> passed commit) commits))
     = ''commit validation: failed!\<newline>''
       @ ''please enter a commit message in the commitizen format.\<newline>''
       @ str_join [nl]
           (map (\<lambda>commit. ''commit '' @ [dquote] @ rev_id commit @ [dquote] @ '': ''
                   @ [dquote] @ git_message e commit @ [dquote])
              (filter (\<lambda>commit. \<not> passed commit) commits))
       @ [nl] @ ''pattern: '' @ schema_pattern_str"
    by (rule format_exception_message_map)
qed

theorem check_reports_every_failure_witness:
  "Check_call
       (example_env False [] [example_bad_commit, example_good_commit, example_other_bad_commit])
       (example_check None None (Some ''master..'')) []
     = (Inl (InvalidCommitMessageError
               (''commit validation: failed!\<newline>''
                @ ''please enter a commit message in the commitizen format.\<newline>''
                @ ''commit '' @ [dquote] @ ''c3d4'' @ [dquote] @ '': '' @ [dquote] @ ''bad message'' @ [dquote]
                @ [nl]
                @ ''commit '' @ [dquote] @ ''e5f6'' @ [dquote] @ '': ''
                @ [dquote] @ ''fixed things\<newline>\<newline>details'' @ [dquote]
                @ [nl] @ ''pattern: <bound method schema_pattern>'')), [])
   \<and> Check_call (example_env False [] [example_good_commit, example_good_commit])
       (example_check None None (Some ''master..'')) []
     = (Inr (), [Success ''Commit validation: successful!''])"
proof -
  let ?self = "example_check None None (Some ''master..'')"
  let ?h1 = "[example_bad_commit, example_good_commit, example_other_bad_commit]"
  let ?h2 = "[example_good_commit, example_good_commit]"
  let ?passed = "\<lambda>commit. startswith (example_message commit) ''feat: ''"
  let ?reasons = "\<lambda>commit::GitCommit. [] :: string list"
  have m1: "example_message example_good_commit = ''feat: add x''"
    by (simp add: example_message_def example_good_commit_def str_strip_def isspace_def)
  have m2: "example_message example_bad_commit = ''bad message''"
    by (simp add: example_message_def example_bad_commit_def str_strip_def isspace_def)
  have m3: "example_message example_other_bad_commit = ''fixed things\<newline>\<newline>details''"
    by (simp add: example_message_def example_other_bad_commit_def str_strip_def isspace_def)
  have gm: "git_message (example_env False [] history) = example_message" for history
    by (simp add: example_env_def)
  have pat: "plugin_schema_pattern (cz ?self) = Inr (Some ''feat: '')"
    by (simp add: example_check_def example_cz_def)
  have fmt: "plugin_format_exception_message (cz ?self)
           = format_exception_message example_message ''<bound method schema_pattern>''"
    by (simp add: example_check_def example_cz_def BaseCommitizen_def)
  have val: "plugin_validate_commit_message (cz ?self) (example_message commit)
               (Some ''feat: '') (allow_abort ?self) (allowed_prefixes ?self) (max_msg_length ?self)
             = Inr (?passed commit, ?reasons commit)"
    if "commit = example_good_commit \<or> commit = example_bad_commit
          \<or> commit = example_other_bad_commit" for commit
    using that
    by (auto simp add: example_check_def example_cz_def BaseCommitizen_def
        validate_commit_message_def literal_re_match_def m1 m2 m3)
  have g1: "Check_get_commits (example_env False [] ?h1) ?self = Inr ?h1"
    by (simp add: Check_get_commits_def example_env_def example_check_def)
  have g2: "Check_get_commits (example_env False [] ?h2) ?self = Inr ?h2"
    by (simp add: Check_get_commits_def example_env_def example_check_def)
  have n1: "?h1 \<noteq> []" by simp
  have n2: "?h2 \<noteq> []" by simp
  have v1: "\<forall>commit \<in> set ?h1.
      plugin_validate_commit_message (cz ?self) (git_message (example_env False [] ?h1) commit)
        (Some ''feat: '') (allow_abort ?self) (allowed_prefixes ?self) (max_msg_length ?self)
      = Inr (?passed commit, ?reasons commit)"
    unfolding gm using val by simp
  have v2: "\<forall>commit \<in> set ?h2.
      plugin_validate_commit_message (cz ?self) (git_message (example_env False [] ?h2) commit)
        (Some ''feat: '') (allow_abort ?self) (allowed_prefixes ?self) (max_msg_length ?self)
      = Inr (?passed commit, ?reasons commit)"
    unfolding gm using val by simp
  note r1 = check_reports_every_failure
    [OF g1 n1 pat v1, where out = "[]" and schema_pattern_str = "''<bound method schema_pattern>''"]
  note r2 = check_reports_every_failure
    [OF g2 n2 pat v2, where out = "[]" and schema_pattern_str = "''<bound method schema_pattern>''"]
  have c1: "Check_call (example_env False [] ?h1) ?self []
     = (Inl (InvalidCommitMessageError
               (''commit validation: failed!\<newline>''
                @ ''please enter a commit message in the commitizen format.\<newline>''
                @ ''commit '' @ [dquote] @ ''c3d4'' @ [dquote] @ '': '' @ [dquote] @ ''bad message'' @ [dquote]
                @ [nl]
                @ ''commit '' @ [dquote] @ ''e5f6'' @ [dquote] @ '': ''
                @ [dquote] @ ''fixed things\<newline>\<newline>details'' @ [dquote]
                @ [nl] @ ''pattern: <bound method schema_pattern>'')), [])"
  proof -
    have rv: "rev_id example_bad_commit = ''c3d4''" "rev_id example_other_bad_commit = ''e5f6''"
      by (simp_all add: example_bad_commit_def example_other_bad_commit_def)
    have "\<not> list_all ?passed ?h1"
      by (simp add: m1 m2 m3)
    with r1 [THEN conjunct1]
    have "Check_call (example_env False [] ?h1) ?self []
       = (Inl (InvalidCommitMessageError
                 (format_exception_message example_message ''<bound method schema_pattern>''
                    (map (\<lambda>commit. (commit, ?reasons commit))
                       (filter (\<lambda>commit. \<not> ?passed commit) ?h1)))), [])"
      by (simp only: fmt if_False)
    moreover have "format_exception_message example_message ''<bound method schema_pattern>''
                    (map (\<lambda>commit. (commit, ?reasons commit))
                       (filter (\<lambda>commit. \<not> ?passed commit) ?h1))
       = ''commit validation: failed!\<newline>''
         @ ''please enter a commit message in the commitizen format.\<newline>''
         @ ''commit '' @ [dquote] @ ''c3d4'' @ [dquote] @ '': '' @ [dquote] @ ''bad message'' @ [dquote]
         @ [nl]
         @ ''commit '' @ [dquote] @ ''e5f6'' @ [dquote] @ '': ''
         @ [dquote] @ ''fixed things\<newline>\<newline>details'' @ [dquote]
         @ [nl] @ ''pattern: <bound method schema_pattern>''"
      unfolding r1 [THEN conjunct2, unfolded gm]
      by (simp add: m1 m2 m3 rv)
    ultimately show ?thesis by (simp only:)
  qed
  have c2: "Check_call (example_env False [] ?h2) ?self []
     = (Inr (), [Success ''Commit validation: successful!''])"
    unfolding r2 [THEN conjunct1] by (simp add: m1)
  from c1 c2 show ?thesis by (intro conjI)
qed

text \<open>
  C10. With a message file or an inline message (standard input included), the commits
  resolved are exactly one record with empty revision and empty title, whose body is the
  filtered text, also when the filtered text is empty. The resolved sequence is therefore
  empty, the condition under which \<open>NoCommitsFoundError\<close> is raised, only when neither
  is set, that is in revision-range mode. When the filtered text is empty, and the record
  of the empty text has the empty message, the base validation accepts it exactly when
  \<open>allow_abort\<close> holds. A text of comment lines only is filtered to the empty text:
  every line starts with \<open>#\<close>, where the text may end with a newline and may be empty.
\<close>

theorem synthetic_commit_record:
  "(commit_msg_file self = Some path \<and> open_read e path (encoding self) = Inr raw
    \<longrightarrow> Check_get_commits e self
          = Inr [\<lparr> rev_id = [], title = [], body = Check_filter_comments raw \<rparr>])
   \<and> (commit_msg_file self = None \<and> commit_msg self = Some raw
    \<longrightarrow> Check_get_commits e self
          = Inr [\<lparr> rev_id = [], title = [], body = Check_filter_comments raw \<rparr>])
   \<and> (arg_commit_msg_file args = None \<and> arg_message args = None \<and> arg_rev_range args = None
        \<and> Check_init e cfg args = Inr self
    \<longrightarrow> Check_get_commits e self
          = Inr [\<lparr> rev_id = [], title = [], body = Check_filter_comments (stdin_read e) \<rparr>])
   \<and> (Check_get_commits e self = Inr []
    \<longrightarrow> commit_msg_file self = None \<and> commit_msg self = None)
   \<and> (Check_get_commits e self
          = Inr [\<lparr> rev_id = [], title = [], body = Check_filter_comments raw \<rparr>]
        \<and> Check_filter_comments raw = []
        \<and> git_message e \<lparr> rev_id = [], title = [], body = [] \<rparr> = []
        \<and> plugin_schema_pattern (cz self) = Inr pattern
        \<and> plugin_validate_commit_message (cz self) = validate_commit_message re_match
    \<longrightarrow> Check_call e self out =
          (if allow_abort self then (Inr (), out @ [Success ''Commit validation: successful!''])
           else (Inl (InvalidCommitMessageError
                        (plugin_format_exception_message (cz self)
                           [(\<lparr> rev_id = [], title = [], body = [] \<rparr>, [])])), out)))
   \<and> (list_all (\<lambda>line. startswith line ''#'') (butlast (str_split raw nl))
        \<and> (last (str_split raw nl) = [] \<or> startswith (last (str_split raw nl)) ''#'')
    \<longrightarrow> Check_filter_comments raw = [])"
proof (intro conjI impI)
  assume "commit_msg_file self = Some path \<and> open_read e path (encoding self) = Inr raw"
  then show "Check_get_commits e self
          = Inr [\<lparr> rev_id = [], title = [], body = Check_filter_comments raw \<rparr>]"
    by (simp add: get_commits_file)
next
  assume "commit_msg_file self = None \<and> commit_msg self = Some raw"
  then show "Check_get_commits e self
          = Inr [\<lparr> rev_id = [], title = [], body = Check_filter_comments raw \<rparr>]"
    by (simp add: get_commits_inline)
next
  assume "arg_commit_msg_file args = None \<and> arg_message args = None \<and> arg_rev_range args = None
        \<and> Check_init e cfg args = Inr self"
  then have "commit_msg_file self = None \<and> commit_msg self = Some (stdin_read e)"
    using check_init_no_arguments by blast
  then show "Check_get_commits e self
          = Inr [\<lparr> rev_id = [], title = [], body = Check_filter_comments (stdin_read e) \<rparr>]"
    by (simp add: get_commits_inline)
next
  assume "Check_get_commits e self = Inr []"
  then show "commit_msg_file self = None" using get_commits_empty by blast
next
  assume "Check_get_commits e self = Inr []"
  then show "commit_msg self = None" using get_commits_empty by blast
next
  assume h: "Check_get_commits e self
          = Inr [\<lparr> rev_id = [], title = [], body = Check_filter_comments raw \<rparr>]
        \<and> Check_filter_comments raw = []
        \<and> git_message e \<lparr> rev_id = [], title = [], body = [] \<rparr> = []
        \<and> plugin_schema_pattern (cz self) = Inr pattern
        \<and> plugin_validate_commit_message (cz self) = validate_commit_message re_match"
  then have "Check_get_commits e self = Inr [\<lparr> rev_id = [], title = [], body = [] \<rparr>]"
    by simp
  with h show "Check_call e self out =
          (if allow_abort self then (Inr (), out @ [Success ''Commit validation: successful!''])
           else (Inl (InvalidCommitMessageError
                        (plugin_format_exception_message (cz self)
                           [(\<lparr> rev_id = [], title = [], body = [] \<rparr>, [])])), out))"
    using check_call_empty_message by blast
next
  assume "list_all (\<lambda>line. startswith line ''#'') (butlast (str_split raw nl))
        \<and> (last (str_split raw nl) = [] \<or> startswith (last (str_split raw nl)) ''#'')"
  then show "Check_filter_comments raw = []"
    using filter_comments_comment_only by blast
qed

theorem synthetic_commit_record_witness:
  "Check_get_commits (example_env False [] []) (example_check (Some ''COMMIT_EDITMSG'') None None)
     = Inr [\<lparr> rev_id = [], title = [], body = [] \<rparr>]
   \<and> Check_get_commits (example_env False [] []) (example_check None (Some ''fix: y\<newline># note'') None)
     = Inr [\<lparr> rev_id = [], title = [], body = ''fix: y'' \<rparr>]
   \<and> Check_init (example_env False ''# aborted\<newline>'' []) example_config
       (example_arguments None None None)
     = Inr (example_check None (Some ''# aborted\<newline>'') None)
   \<and> Check_get_commits (example_env False ''# aborted\<newline>'' [])
       (example_check None (Some ''# aborted\<newline>'') None)
     = Inr [\<lparr> rev_id = [], title = [], body = [] \<rparr>]
   \<and> Check_get_commits (example_env False [] []) (example_check None None (Some ''v1.0..v1.0''))
     = Inr []
   \<and> commit_msg_file (example_check None None (Some ''v1.0..v1.0'')) = None
   \<and> commit_msg (example_check None None (Some ''v1.0..v1.0'')) = None
   \<and> Check_call (example_env False [] [])
       (example_check None (Some ''# one comment\<newline># another\<newline>'') None) []
     = (Inl (InvalidCommitMessageError
               (''commit validation: failed!\<newline>''
                @ ''please enter a commit message in the commitizen format.\<newline>''
                @ ''commit '' @ [dquote] @ [dquote] @ '': '' @ [dquote] @ [dquote]
                @ [nl] @ ''pattern: <bound method schema_pattern>'')), [])
   \<and> Check_call (example_env False [] [])
       ((example_check None (Some ''# one comment\<newline># another\<newline>'') None)
          \<lparr> allow_abort := True \<rparr>) []
     = (Inr (), [Success ''Commit validation: successful!''])
   \<and> Check_call (example_env False [] [])
       ((example_check None (Some []) None) \<lparr> allow_abort := True \<rparr>) []
     = (Inr (), [Success ''Commit validation: successful!''])"
proof -
  let ?e = "example_env False [] []"
  let ?c0 = "\<lparr> rev_id = [], title = [], body = [] \<rparr>"
  let ?template = "''# Please enter the commit message.\<newline># Lines starting with # are ignored.\<newline>''"
  let ?two = "''# one comment\<newline># another\<newline>''"
  \<comment> \<open>comment-only texts\<close>
  have k1: "list_all (\<lambda>line. startswith line ''#'') (butlast (str_split ?template nl))
      \<and> (last (str_split ?template nl) = [] \<or> startswith (last (str_split ?template nl)) ''#'')"
    by simp
  have k2: "list_all (\<lambda>line. startswith line ''#'') (butlast (str_split ''# aborted\<newline>'' nl))
      \<and> (last (str_split ''# aborted\<newline>'' nl) = []
          \<or> startswith (last (str_split ''# aborted\<newline>'' nl)) ''#'')"
    by simp
  have k3: "list_all (\<lambda>line. startswith line ''#'') (butlast (str_split ?two nl))
      \<and> (last (str_split ?two nl) = [] \<or> startswith (last (str_split ?two nl)) ''#'')"
    by simp
  have k4: "list_all (\<lambda>line. startswith line ''#'') (butlast (str_split [] nl))
      \<and> (last (str_split [] nl) = [] \<or> startswith (last (str_split [] nl)) ''#'')"
    by simp
  note f1 = synthetic_commit_record [where raw = ?template,
      THEN conjunct2, THEN conjunct2, THEN conjunct2, THEN conjunct2, THEN conjunct2,
      rule_format, OF k1]
  note f2 = synthetic_commit_record [where raw = "''# aborted\<newline>''",
      THEN conjunct2, THEN conjunct2, THEN conjunct2, THEN conjunct2, THEN conjunct2,
      rule_format, OF k2]
  note f3 = synthetic_commit_record [where raw = ?two,
      THEN conjunct2, THEN conjunct2, THEN conjunct2, THEN conjunct2, THEN conjunct2,
      rule_format, OF k3]
  note f4 = synthetic_commit_record [where raw = "[]",
      THEN conjunct2, THEN conjunct2, THEN conjunct2, THEN conjunct2, THEN conjunct2,
      rule_format, OF k4]
  \<comment> \<open>file mode\<close>
  have a: "commit_msg_file (example_check (Some ''COMMIT_EDITMSG'') None None) = Some ''COMMIT_EDITMSG''
      \<and> open_read ?e ''COMMIT_EDITMSG'' (encoding (example_check (Some ''COMMIT_EDITMSG'') None None))
          = Inr ?template"
    by (simp add: example_check_def example_env_def)
  note t1 = synthetic_commit_record
    [where self = "example_check (Some ''COMMIT_EDITMSG'') None None" and path = "''COMMIT_EDITMSG''"
      and e = "?e" and raw = ?template,
      THEN conjunct1, rule_format, OF a, unfolded f1]
  \<comment> \<open>inline mode\<close>
  have b: "commit_msg_file (example_check None (Some ''fix: y\<newline># note'') None) = None
      \<and> commit_msg (example_check None (Some ''fix: y\<newline># note'') None) = Some ''fix: y\<newline># note''"
    by (simp add: example_check_def)
  have fb: "Check_filter_comments ''fix: y\<newline># note'' = ''fix: y''"
    by (simp add: Check_filter_comments_def verbose_diff_delimiter_def)
  note t2 = synthetic_commit_record
    [where self = "example_check None (Some ''fix: y\<newline># note'') None"
      and raw = "''fix: y\<newline># note''" and e = "?e",
      THEN conjunct2, THEN conjunct1, rule_format, OF b, unfolded fb]
  \<comment> \<open>standard input\<close>
  have i: "Check_init (example_env False ''# aborted\<newline>'' []) example_config
             (example_arguments None None None)
           = Inr (example_check None (Some ''# aborted\<newline>'') None)"
    by (simp add: Check_init_def Check_valid_command_argument_def example_env_def
        example_arguments_def example_config_def example_check_def)
  have c: "arg_commit_msg_file (example_arguments None None None) = None
      \<and> arg_message (example_arguments None None None) = None
      \<and> arg_rev_range (example_arguments None None None) = None
      \<and> Check_init (example_env False ''# aborted\<newline>'' []) example_config
            (example_arguments None None None)
          = Inr (example_check None (Some ''# aborted\<newline>'') None)"
    using i by (simp add: example_arguments_def)
  have sr: "stdin_read (example_env False ''# aborted\<newline>'' []) = ''# aborted\<newline>''"
    by (simp add: example_env_def)
  note t3 = synthetic_commit_record
    [where self = "example_check None (Some ''# aborted\<newline>'') None"
      and e = "example_env False ''# aborted\<newline>'' []"
      and args = "example_arguments None None None" and cfg = example_config,
      THEN conjunct2, THEN conjunct2, THEN conjunct1, rule_format, OF c, unfolded sr f2]
  \<comment> \<open>revision range\<close>
  have d: "Check_get_commits ?e (example_check None None (Some ''v1.0..v1.0'')) = Inr []"
    by (simp add: Check_get_commits_def example_check_def example_env_def)
  note t4 = synthetic_commit_record
    [where self = "example_check None None (Some ''v1.0..v1.0'')" and e = "?e",
      THEN conjunct2, THEN conjunct2, THEN conjunct2, THEN conjunct1, rule_format, OF d]
  \<comment> \<open>the empty message is validated\<close>
  let ?s1 = "example_check None (Some ?two) None"
  let ?s2 = "(example_check None (Some ?two) None) \<lparr> allow_abort := True \<rparr>"
  let ?s3 = "(example_check None (Some []) None) \<lparr> allow_abort := True \<rparr>"
  have gm: "git_message ?e ?c0 = []"
    by (simp add: example_env_def example_message_def str_strip_def isspace_def)
  have e1: "Check_get_commits ?e ?s1
          = Inr [\<lparr> rev_id = [], title = [], body = Check_filter_comments ?two \<rparr>]
        \<and> Check_filter_comments ?two = []
        \<and> git_message ?e ?c0 = []
        \<and> plugin_schema_pattern (cz ?s1) = Inr (Some ''feat: '')
        \<and> plugin_validate_commit_message (cz ?s1) = validate_commit_message literal_re_match"
    using f3 gm
    by (simp add: Check_get_commits_def example_check_def example_cz_def BaseCommitizen_def)
  have e2: "Check_get_commits ?e ?s2
          = Inr [\<lparr> rev_id = [], title = [], body = Check_filter_comments ?two \<rparr>]
        \<and> Check_filter_comments ?two = []
        \<and> git_message ?e ?c0 = []
        \<and> plugin_schema_pattern (cz ?s2) = Inr (Some ''feat: '')
        \<and> plugin_validate_commit_message (cz ?s2) = validate_commit_message literal_re_match"
    using f3 gm
    by (simp add: Check_get_commits_def example_check_def example_cz_def BaseCommitizen_def)
  have e3: "Check_get_commits ?e ?s3
          = Inr [\<lparr> rev_id = [], title = [], body = Check_filter_comments [] \<rparr>]
        \<and> Check_filter_comments [] = []
        \<and> git_message ?e ?c0 = []
        \<and> plugin_schema_pattern (cz ?s3) = Inr (Some ''feat: '')
        \<and> plugin_validate_commit_message (cz ?s3) = validate_commit_message literal_re_match"
    using f4 gm
    by (simp add: Check_get_commits_def example_check_def example_cz_def BaseCommitizen_def)
  note t5 = synthetic_commit_record
    [where self = "?s1" and e = "?e" and raw = ?two
      and pattern = "Some ''feat: ''" and re_match = literal_re_match and out = "[]",
      THEN conjunct2, THEN conjunct2, THEN conjunct2, THEN conjunct2, THEN conjunct1,
      rule_format, OF e1]
  note t6 = synthetic_commit_record
    [where self = "?s2" and e = "?e" and raw = ?two
      and pattern = "Some ''feat: ''" and re_match = literal_re_match and out = "[]",
      THEN conjunct2, THEN conjunct2, THEN conjunct2, THEN conjunct2, THEN conjunct1,
      rule_format, OF e2]
  note t7 = synthetic_commit_record
    [where self = "?s3" and e = "?e" and raw = "[]"
      and pattern = "Some ''feat: ''" and re_match = literal_re_match and out = "[]",
      THEN conjunct2, THEN conjunct2, THEN conjunct2, THEN conjunct2, THEN conjunct1,
      rule_format, OF e3]
  have w5: "Check_call ?e ?s1 []
     = (Inl (InvalidCommitMessageError
               (''commit validation: failed!\<newline>''
                @ ''please enter a commit message in the commitizen format.\<newline>''
                @ ''commit '' @ [dquote] @ [dquote] @ '': '' @ [dquote] @ [dquote]
                @ [nl] @ ''pattern: <bound method schema_pattern>'')), [])"
    unfolding t5
    by (simp add: example_check_def example_cz_def BaseCommitizen_def
        format_exception_message_def example_message_def str_strip_def isspace_def)
  have w6: "Check_call ?e ?s2 [] = (Inr (), [Success ''Commit validation: successful!''])"
    unfolding t6 by (simp add: example_check_def)
  have w7: "Check_call ?e ?s3 [] = (Inr (), [Success ''Commit validation: successful!''])"
    unfolding t7 by (simp add: example_check_def)
  from t1 t2 i t3 d t4 w5 w6 w7 show ?thesis by (intro conjI) simp_all
qed

end
